theory Spec2Isabelle
  imports Main
begin

section \<open>The Firestore facade and the Google Calendar credential storage\<close>

text \<open>
  A shallow embedding of \<^verbatim>\<open>server/firestore.py\<close>: the class \<^verbatim>\<open>Firestore\<close>
  (a wrapper around three collections of a document database) and the class
  \<^verbatim>\<open>GoogleCalendarStorage\<close> (the load/save/delete storage of an OAuth2 client
  library, backed by the wrapper).

  The module is sequential glue around two libraries. Their objects are modelled as data,
  their operations either as small functions on that data (the document database) or as
  parameters (the OAuth2 client library, whose results depend on a JSON codec, on the
  clock and on the token endpoint). Every method of the module takes the world and
  returns its result together with the new world; a raised exception is the result
  \<open>Inl\<close>.
\<close>

subsection \<open>Exceptions\<close>

text \<open>
  \<^verbatim>\<open>DataError\<close> is the one exception class the module declares. Everything else that
  can be raised while a method runs comes from a library or from Python itself; those are
  kept in a type of their own, so that no library operation can produce a
  \<^verbatim>\<open>DataError\<close>.
\<close>

datatype external_error =
    KeyError string
  | ValueError string
  | TypeError string
  | NotFound string
  | HttpAccessTokenRefreshError string
  | TransportError string

datatype exn = DataError string | External external_error

subsection \<open>The document database\<close>

text \<open>
  A document is a dictionary of top-level fields. Values are scalars: nested maps and
  arrays, and the dotted field paths that address into them, are outside the model. The
  payload of a write has, for each field it names, either a value or the sentinel
  \<^verbatim>\<open>DELETE_FIELD\<close>.
\<close>

datatype fs_value =
    NullValue
  | BooleanValue bool
  | IntegerValue int
  | StringValue string

datatype field_write = Put fs_value | DELETE_FIELD

type_synonym document = "string \<rightharpoonup> fs_value"
type_synonym payload = "string \<rightharpoonup> field_write"
type_synonym collection = "string \<rightharpoonup> document"

record database =
  coll_api_keys :: collection
  coll_oauth_clients :: collection
  coll_users :: collection

text \<open>
  \<^verbatim>\<open>DocumentReference.get()\<close> gives a snapshot whose \<^verbatim>\<open>exists\<close> is false for a
  missing document: the snapshot is the \<open>option\<close> the collection holds.
  \<^verbatim>\<open>DocumentSnapshot.get(field)\<close> raises \<^verbatim>\<open>KeyError\<close> for a field the document
  does not have; \<open>None\<close> stands for that raise here, and each caller says what it
  does with it.
\<close>

definition snapshot_get :: "document \<Rightarrow> string \<Rightarrow> fs_value option" where
  "snapshot_get doc field = doc field"

text \<open>Writing a payload over a document touches exactly the fields the payload names.\<close>

definition apply_fields :: "payload \<Rightarrow> document \<Rightarrow> document" where
  "apply_fields fs doc =
     (\<lambda>f. case fs f of
             None \<Rightarrow> doc f
           | Some DELETE_FIELD \<Rightarrow> None
           | Some (Put v) \<Rightarrow> Some v)"

text \<open>
  \<^verbatim>\<open>DocumentReference.set(data, merge=True)\<close> creates the document when it is
  missing and merges the payload into it otherwise.
\<close>

definition reference_set_merge :: "collection \<Rightarrow> string \<Rightarrow> payload \<Rightarrow> collection" where
  "reference_set_merge coll key data =
     coll(key \<mapsto> apply_fields data (case coll key of None \<Rightarrow> Map.empty | Some doc \<Rightarrow> doc))"

text \<open>
  \<^verbatim>\<open>DocumentReference.update(fields)\<close> never creates a document: it fails with
  \<^verbatim>\<open>NotFound\<close> when there is none, and the client refuses an empty payload with a
  \<^verbatim>\<open>ValueError\<close> before anything is sent.
\<close>

definition reference_update :: "collection \<Rightarrow> string \<Rightarrow> payload \<Rightarrow> external_error + collection" where
  "reference_update coll key fs =
     (if fs = Map.empty then Inl (ValueError ''Cannot update with an empty document.'')
      else case coll key of
             None \<Rightarrow> Inl (NotFound key)
           | Some doc \<Rightarrow> Inr (coll(key \<mapsto> apply_fields fs doc)))"

subsection \<open>The OAuth2 client library\<close>

text \<open>
  An \<^verbatim>\<open>OAuth2Credentials\<close> object, with the attributes the module and its
  specification speak of. \<open>store\<close> is the storage attached by \<^verbatim>\<open>set_store\<close>; a
  \<^verbatim>\<open>GoogleCalendarStorage\<close> is identified by the user key it was built with.
\<close>

record credentials =
  access_token :: string
  refresh_token :: string
  token_expiry :: "int option"
  invalid :: bool
  store :: "string option"

text \<open>
  The library's operations are parameters of the model:
  \<^item> \<open>from_json\<close> is \<^verbatim>\<open>OAuth2Credentials.from_json\<close>. It may raise (\<open>Inl\<close>); the
    module also tests its result for truth, so the result is an \<open>option\<close>;
  \<^item> \<open>to_json\<close> is \<^verbatim>\<open>credentials.to_json()\<close>;
  \<^item> \<open>access_token_expired\<close> is the property of that name, which reads the clock;
  \<^item> \<open>refresh\<close> is \<^verbatim>\<open>credentials.refresh(build_http())\<close>: the exchange with the
    token endpoint, giving the refreshed object or the exception raised. The object
    it is called on comes straight from \<open>from_json\<close> and has no storage attached
    (\<^verbatim>\<open>set_store\<close> is called later, in \<^verbatim>\<open>locked_get\<close>), so the call has no way to
    the database.
\<close>

record oauth2client =
  from_json :: "fs_value \<Rightarrow> external_error + credentials option"
  to_json :: "credentials \<Rightarrow> string"
  access_token_expired :: "credentials \<Rightarrow> bool"
  refresh :: "credentials \<Rightarrow> external_error + credentials"

definition set_store :: "credentials \<Rightarrow> string \<Rightarrow> credentials" where
  "set_store c key = c\<lparr>store := Some key\<rparr>"

subsection \<open>The world\<close>

text \<open>
  What a method can read and change: the database, the lines written through
  \<^verbatim>\<open>logging\<close>, and the refresh requests made so far (the credentials each was made
  for, in order).
\<close>

datatype level = INFO | WARNING | ERROR

record world =
  db :: database
  logged :: "(level \<times> string) list"
  refresh_calls :: "credentials list"

definition info :: "string \<Rightarrow> world \<Rightarrow> world" where
  "info msg w = w\<lparr>logged := logged w @ [(INFO, msg)]\<rparr>"

definition warning :: "string \<Rightarrow> world \<Rightarrow> world" where
  "warning msg w = w\<lparr>logged := logged w @ [(WARNING, msg)]\<rparr>"

definition error :: "string \<Rightarrow> world \<Rightarrow> world" where
  "error msg w = w\<lparr>logged := logged w @ [(ERROR, msg)]\<rparr>"

definition set_users :: "collection \<Rightarrow> world \<Rightarrow> world" where
  "set_users coll w = w\<lparr>db := (db w)\<lparr>coll_users := coll\<rparr>\<rparr>"

subsection \<open>class Firestore\<close>

text \<open>\<^verbatim>\<open>_api_key\<close>: the \<^verbatim>\<open>KeyError\<close> of a document without the field is not caught.\<close>

definition api_key :: "string \<Rightarrow> world \<Rightarrow> (exn + fs_value) \<times> world" where
  "api_key service w =
     (case coll_api_keys (db w) service of
        None \<Rightarrow> (Inl (DataError (''Missing API key for: '' @ service)), w)
      | Some doc \<Rightarrow>
          (case snapshot_get doc ''api_key'' of
             None \<Rightarrow> (Inl (External (KeyError ''api_key'')), w)
           | Some v \<Rightarrow> (Inr v, w)))"

definition google_maps_api_key :: "world \<Rightarrow> (exn + fs_value) \<times> world" where
  "google_maps_api_key w = api_key ''google_maps'' w"

definition open_weather_api_key :: "world \<Rightarrow> (exn + fs_value) \<times> world" where
  "open_weather_api_key w = api_key ''open_weather'' w"


definition user :: "string \<Rightarrow> world \<Rightarrow> (exn + document option) \<times> world" where
  "user key w =
     (case coll_users (db w) key of
        None \<Rightarrow> (Inr None, warning ''User not found.'' w)
      | Some doc \<Rightarrow> (Inr (Some doc), w))"


definition set_user :: "string \<Rightarrow> payload \<Rightarrow> world \<Rightarrow> (exn + unit) \<times> world" where
  "set_user key data w =
     (Inr (), set_users (reference_set_merge (coll_users (db w)) key data) w)"

definition update_user :: "string \<Rightarrow> payload \<Rightarrow> world \<Rightarrow> (exn + unit) \<times> world" where
  "update_user key fs w =
     (case coll_users (db w) key of
        None \<Rightarrow> (Inr (), error ''User not found for update.'' w)
      | Some _ \<Rightarrow>
          (case reference_update (coll_users (db w)) key fs of
             Inl e \<Rightarrow> (Inl (External e), w)
           | Inr coll \<Rightarrow> (Inr (), set_users coll w)))"

definition update_google_calendar_credentials ::
    "oauth2client \<Rightarrow> string \<Rightarrow> credentials \<Rightarrow> world \<Rightarrow> (exn + unit) \<times> world" where
  "update_google_calendar_credentials lib key c w =
     update_user key [''google_calendar_credentials'' \<mapsto> Put (StringValue (to_json lib c))] w"

definition delete_google_calendar_credentials :: "string \<Rightarrow> world \<Rightarrow> (exn + unit) \<times> world" where
  "delete_google_calendar_credentials key w =
     update_user key [''google_calendar_credentials'' \<mapsto> DELETE_FIELD] w"

text \<open>
  The last step of \<^verbatim>\<open>google_calendar_credentials\<close>, reached when there is no
  credentials object, when an invalid one is not expired, and after a refresh that
  failed with \<^verbatim>\<open>HttpAccessTokenRefreshError\<close>.
\<close>

definition delete_and_return_none :: "string \<Rightarrow> world \<Rightarrow> (exn + credentials option) \<times> world" where
  "delete_and_return_none key w =
     (case delete_google_calendar_credentials key
             (warning ''Deleting Google Calendar credentials.'' w) of
        (Inl e, w') \<Rightarrow> (Inl e, w')
      | (Inr _, w') \<Rightarrow> (Inr None, w'))"

text \<open>
  The \<^verbatim>\<open>try\<close> block around \<^verbatim>\<open>credentials.refresh\<close>: the request is recorded, only
  \<^verbatim>\<open>HttpAccessTokenRefreshError\<close> is caught, any other exception leaves the method.
\<close>

definition refresh_credentials ::
    "oauth2client \<Rightarrow> string \<Rightarrow> credentials \<Rightarrow> world \<Rightarrow> (exn + credentials option) \<times> world" where
  "refresh_credentials lib key c w =
     (let w1 = info ''Refreshing Google Calendar credentials.'' w;
          w2 = w1\<lparr>refresh_calls := refresh_calls w1 @ [c]\<rparr>
      in case refresh lib c of
           Inr c' \<Rightarrow> (Inr (Some c'), w2)
         | Inl (HttpAccessTokenRefreshError e) \<Rightarrow>
             delete_and_return_none key (warning (''Google Calendar refresh failed: '' @ e) w2)
         | Inl other \<Rightarrow> (Inl (External other), w2))"

definition google_calendar_credentials ::
    "oauth2client \<Rightarrow> string \<Rightarrow> world \<Rightarrow> (exn + credentials option) \<times> world" where
  "google_calendar_credentials lib key w =
     (case user key w of
        (Inl e, w1) \<Rightarrow> (Inl e, w1)
      | (Inr None, w1) \<Rightarrow> (Inr None, w1)
      | (Inr (Some u), w1) \<Rightarrow>
          (case snapshot_get u ''google_calendar_credentials'' of
             None \<Rightarrow> (Inr None, warning ''Failed to load Google Calendar credentials.'' w1)
           | Some json \<Rightarrow>
               (case from_json lib json of
                  Inl e \<Rightarrow> (Inl (External e), w1)
                | Inr None \<Rightarrow> delete_and_return_none key w1
                | Inr (Some c) \<Rightarrow>
                    if \<not> invalid c then (Inr (Some c), w1)
                    else if access_token_expired lib c then refresh_credentials lib key c w1
                    else delete_and_return_none key w1)))"

subsection \<open>class GoogleCalendarStorage\<close>

text \<open>The methods of the storage built with \<open>key\<close>.\<close>

definition locked_get ::
    "oauth2client \<Rightarrow> string \<Rightarrow> world \<Rightarrow> (exn + credentials option) \<times> world" where
  "locked_get lib key w =
     (case google_calendar_credentials lib key w of
        (Inl e, w') \<Rightarrow> (Inl e, w')
      | (Inr None, w') \<Rightarrow> (Inr None, w')
      | (Inr (Some c), w') \<Rightarrow> (Inr (Some (set_store c key)), w'))"

definition locked_put ::
    "oauth2client \<Rightarrow> string \<Rightarrow> credentials \<Rightarrow> world \<Rightarrow> (exn + unit) \<times> world" where
  "locked_put lib key c w = update_google_calendar_credentials lib key c w"

definition locked_delete :: "string \<Rightarrow> world \<Rightarrow> (exn + unit) \<times> world" where
  "locked_delete key w = delete_google_calendar_credentials key w"

subsection \<open>Reading a user's field\<close>

text \<open>The value of a field of a user's document; \<open>None\<close> when the document or the field is missing.\<close>

definition user_field :: "world \<Rightarrow> string \<Rightarrow> string \<Rightarrow> fs_value option" where
  "user_field w key f = (case coll_users (db w) key of None \<Rightarrow> None | Some doc \<Rightarrow> doc f)"

subsection \<open>Sample data\<close>

text \<open>
  Concrete credentials, a concrete library and a concrete world, for evaluating the
  methods. The clock of the sample library stands at 1000; its codec knows three blobs
  and raises \<^verbatim>\<open>ValueError\<close> on anything else, as a JSON parser does. As in the
  library, an invalid credentials object counts as expired.
\<close>

definition valid_credentials :: credentials where
  "valid_credentials =
     \<lparr>access_token = ''ya29.live'', refresh_token = ''1//keep'', token_expiry = Some 2000,
      invalid = False, store = None\<rparr>"

definition expired_credentials :: credentials where
  "expired_credentials =
     \<lparr>access_token = ''ya29.old'', refresh_token = ''1//keep'', token_expiry = Some 500,
      invalid = False, store = None\<rparr>"

definition revoked_credentials :: credentials where
  "revoked_credentials =
     \<lparr>access_token = ''ya29.old'', refresh_token = ''1//keep'', token_expiry = Some 500,
      invalid = True, store = None\<rparr>"

text \<open>A token endpoint that grants a new token, and one that answers with an error.\<close>

definition granting :: "credentials \<Rightarrow> external_error + credentials" where
  "granting c = Inr (c\<lparr>access_token := ''ya29.new'', token_expiry := Some 4600, invalid := False\<rparr>)"

definition refusing :: "credentials \<Rightarrow> external_error + credentials" where
  "refusing c = Inl (HttpAccessTokenRefreshError ''invalid_grant'')"

definition table_library :: "(credentials \<Rightarrow> external_error + credentials) \<Rightarrow> oauth2client" where
  "table_library endpoint =
     \<lparr>from_json = (\<lambda>v.
        if v = StringValue ''{valid}'' then Inr (Some valid_credentials)
        else if v = StringValue ''{expired}'' then Inr (Some expired_credentials)
        else if v = StringValue ''{revoked}'' then Inr (Some revoked_credentials)
        else Inl (ValueError ''No JSON object could be decoded'')),
      to_json = (\<lambda>c.
        if invalid c then ''{revoked}''
        else if token_expiry c = Some 500 then ''{expired}''
        else ''{valid}''),
      access_token_expired = (\<lambda>c.
        invalid c \<or> (case token_expiry c of None \<Rightarrow> False | Some t \<Rightarrow> t \<le> 1000)),
      refresh = endpoint\<rparr>"

text \<open>
  A database with one API key, no OAuth client, and two users: \<open>alice\<close> with the given
  blob in her credentials field and \<open>carol\<close> without that field. There is no \<open>bob\<close>.
\<close>

definition sample_world :: "string \<Rightarrow> world" where
  "sample_world blob =
     \<lparr>db = \<lparr>coll_api_keys = [''google_maps'' \<mapsto> [''api_key'' \<mapsto> StringValue ''AIza-maps'']],
             coll_oauth_clients = Map.empty,
             coll_users =
               [''alice'' \<mapsto> [''home'' \<mapsto> StringValue ''Zurich'',
                                 ''google_calendar_credentials'' \<mapsto> StringValue blob],
                ''carol'' \<mapsto> [''home'' \<mapsto> StringValue ''Oslo'']]\<rparr>,
      logged = [],
      refresh_calls = []\<rparr>"

section \<open>Properties\<close>

subsection \<open>Auxiliary facts\<close>

lemmas sample_defs = sample_world_def table_library_def valid_credentials_def
  expired_credentials_def revoked_credentials_def granting_def refusing_def

lemmas method_defs = locked_get_def locked_put_def locked_delete_def
  google_calendar_credentials_def refresh_credentials_def delete_and_return_none_def
  update_google_calendar_credentials_def delete_google_calendar_credentials_def
  update_user_def set_user_def user_def api_key_def reference_update_def
  reference_set_merge_def apply_fields_def snapshot_get_def set_users_def set_store_def
  info_def warning_def error_def user_field_def Let_def

lemma apply_fields_delete: "apply_fields [g \<mapsto> DELETE_FIELD] doc = doc(g := None)"
  by (auto simp: apply_fields_def fun_eq_iff)

lemma apply_fields_put: "apply_fields [g \<mapsto> Put v] doc = doc(g \<mapsto> v)"
  by (auto simp: apply_fields_def fun_eq_iff)

lemma update_user_existing:
  "coll_users (db w) key = Some doc \<Longrightarrow> fs \<noteq> Map.empty \<Longrightarrow>
   update_user key fs w = (Inr (), set_users ((coll_users (db w))(key \<mapsto> apply_fields fs doc)) w)"
  by (simp add: update_user_def reference_update_def)

lemma delete_existing:
  "coll_users (db w) key = Some doc \<Longrightarrow>
   delete_google_calendar_credentials key w =
     (Inr (), set_users ((coll_users (db w))(key \<mapsto> doc(''google_calendar_credentials'' := None))) w)"
  by (simp add: delete_google_calendar_credentials_def update_user_existing apply_fields_delete)

lemma delete_and_return_none_existing:
  "coll_users (db w) key = Some doc \<Longrightarrow>
   delete_and_return_none key w =
     (Inr None, set_users ((coll_users (db w))(key \<mapsto> doc(''google_calendar_credentials'' := None)))
                  (warning ''Deleting Google Calendar credentials.'' w))"
  by (simp add: delete_and_return_none_def delete_existing warning_def)

lemma update_credentials_existing:
  "coll_users (db w) key = Some doc \<Longrightarrow>
   update_google_calendar_credentials lib key c w =
     (Inr (), set_users ((coll_users (db w))(key \<mapsto>
                 doc(''google_calendar_credentials'' \<mapsto> StringValue (to_json lib c)))) w)"
  by (simp add: update_google_calendar_credentials_def update_user_existing apply_fields_put)

text \<open>What \<^verbatim>\<open>google_calendar_credentials\<close> does once the user and the blob are there.\<close>

lemma gcc_stored:
  assumes "coll_users (db w) key = Some doc" and "doc ''google_calendar_credentials'' = Some json"
  shows "google_calendar_credentials lib key w =
     (case from_json lib json of
        Inl e \<Rightarrow> (Inl (External e), w)
      | Inr None \<Rightarrow> delete_and_return_none key w
      | Inr (Some c) \<Rightarrow>
          if \<not> invalid c then (Inr (Some c), w)
          else if access_token_expired lib c then refresh_credentials lib key c w
          else delete_and_return_none key w)"
  using assms by (simp add: google_calendar_credentials_def user_def snapshot_get_def)

lemma gcc_absent:
  assumes "coll_users (db w) key = Some doc" and "doc ''google_calendar_credentials'' = None"
  shows "google_calendar_credentials lib key w =
           (Inr None, warning ''Failed to load Google Calendar credentials.'' w)"
  using assms by (simp add: google_calendar_credentials_def user_def snapshot_get_def)

lemma refresh_failed_eq:
  assumes "coll_users (db w) key = Some doc"
      and "refresh lib c = Inl (HttpAccessTokenRefreshError e)"
  shows "refresh_credentials lib key c w =
     (Inr None,
      set_users ((coll_users (db w))(key \<mapsto> doc(''google_calendar_credentials'' := None)))
        (warning ''Deleting Google Calendar credentials.''
          (warning (''Google Calendar refresh failed: '' @ e)
            ((info ''Refreshing Google Calendar credentials.'' w)
               \<lparr>refresh_calls := refresh_calls w @ [c]\<rparr>))))"
proof -
  let ?w2 = "(info ''Refreshing Google Calendar credentials.'' w)\<lparr>refresh_calls := refresh_calls w @ [c]\<rparr>"
  let ?w3 = "warning (''Google Calendar refresh failed: '' @ e) ?w2"
  have "coll_users (db ?w3) key = Some doc" and "coll_users (db ?w3) = coll_users (db w)"
    using assms(1) by (simp_all add: info_def warning_def)
  then have "delete_and_return_none key ?w3 =
      (Inr None, set_users ((coll_users (db w))(key \<mapsto> doc(''google_calendar_credentials'' := None)))
                   (warning ''Deleting Google Calendar credentials.'' ?w3))"
    using delete_and_return_none_existing [of ?w3 key doc] by simp
  then show ?thesis
    using assms(2) by (simp add: refresh_credentials_def Let_def info_def)
qed








text \<open>The sample world, looked up.\<close>

lemma sample_alice:
  "coll_users (db (sample_world blob)) ''alice'' =
     Some [''home'' \<mapsto> StringValue ''Zurich'', ''google_calendar_credentials'' \<mapsto> StringValue blob]"
  by (simp add: sample_world_def)

lemma sample_carol:
  "coll_users (db (sample_world blob)) ''carol'' = Some [''home'' \<mapsto> StringValue ''Oslo'']"
  by (simp add: sample_world_def)

lemma sample_bob: "coll_users (db (sample_world blob)) ''bob'' = None"
  by (simp add: sample_world_def)

subsection \<open>Configuration lookups\<close>



subsection \<open>Writing user documents\<close>





subsection \<open>Deleting and saving the credentials\<close>

text \<open>
  C9. For an existing user document, \<^verbatim>\<open>locked_delete\<close> is
  \<^verbatim>\<open>delete_google_calendar_credentials\<close>, an update whose payload gives the field
  \<open>google_calendar_credentials\<close> the sentinel \<^verbatim>\<open>DELETE_FIELD\<close>. It returns normally;
  afterwards that field is absent, every other field of the document has the value it
  had, and no other document and no other collection has changed.
\<close>

theorem locked_delete_removes_only_credentials:
  assumes "coll_users (db w) key = Some doc"
  shows "locked_delete key w = delete_google_calendar_credentials key w
       \<and> locked_delete key w = update_user key [''google_calendar_credentials'' \<mapsto> DELETE_FIELD] w
       \<and> locked_delete key w =
           (Inr (), set_users ((coll_users (db w))(key \<mapsto> doc(''google_calendar_credentials'' := None))) w)
       \<and> user_field (snd (locked_delete key w)) key ''google_calendar_credentials'' = None
       \<and> (\<forall>f. f \<noteq> ''google_calendar_credentials'' \<longrightarrow>
             user_field (snd (locked_delete key w)) key f = doc f)
       \<and> (\<forall>k. k \<noteq> key \<longrightarrow> coll_users (db (snd (locked_delete key w))) k = coll_users (db w) k)
       \<and> coll_api_keys (db (snd (locked_delete key w))) = coll_api_keys (db w)
       \<and> coll_oauth_clients (db (snd (locked_delete key w))) = coll_oauth_clients (db w)"
proof -
  have "locked_delete key w =
          (Inr (), set_users ((coll_users (db w))(key \<mapsto> doc(''google_calendar_credentials'' := None))) w)"
    using assms by (simp add: locked_delete_def delete_existing)
  then show ?thesis
    by (simp add: user_field_def set_users_def)
       (simp add: locked_delete_def delete_google_calendar_credentials_def)
qed

theorem locked_delete_removes_only_credentials_witness:
  "coll_users (db (sample_world ''{valid}'')) ''alice'' =
     Some [''home'' \<mapsto> StringValue ''Zurich'',
           ''google_calendar_credentials'' \<mapsto> StringValue ''{valid}'']
   \<and> fst (locked_delete ''alice'' (sample_world ''{valid}'')) = Inr ()
   \<and> user_field (snd (locked_delete ''alice'' (sample_world ''{valid}'')))
        ''alice'' ''google_calendar_credentials'' = None
   \<and> user_field (snd (locked_delete ''alice'' (sample_world ''{valid}'')))
        ''alice'' ''home'' = Some (StringValue ''Zurich'')"
proof -
  let ?w = "sample_world ''{valid}''"
  let ?doc = "[''home'' \<mapsto> StringValue ''Zurich'',
               ''google_calendar_credentials'' \<mapsto> StringValue ''{valid}'']"
  note t = locked_delete_removes_only_credentials [OF sample_alice [of "''{valid}''"]]
  from t have "locked_delete ''alice'' ?w =
      (Inr (), set_users ((coll_users (db ?w))(''alice'' \<mapsto> ?doc(''google_calendar_credentials'' := None))) ?w)"
    by blast
  then have ok: "fst (locked_delete ''alice'' ?w) = Inr ()"
    by simp
  from t have gone: "user_field (snd (locked_delete ''alice'' ?w)) ''alice'' ''google_calendar_credentials'' = None"
    by blast
  from t have "\<forall>f. f \<noteq> ''google_calendar_credentials'' \<longrightarrow>
      user_field (snd (locked_delete ''alice'' ?w)) ''alice'' f = ?doc f"
    by blast
  then have "user_field (snd (locked_delete ''alice'' ?w)) ''alice'' ''home'' = ?doc ''home''"
    by simp
  then have kept: "user_field (snd (locked_delete ''alice'' ?w)) ''alice'' ''home'' = Some (StringValue ''Zurich'')"
    by simp
  from ok gone kept sample_alice [of "''{valid}''"] show ?thesis
    by blast
qed

text \<open>
  C4, as the claim has it: for every user key, \<^verbatim>\<open>locked_put\<close> writes the serialized
  credentials into the user's credentials field. It does not for a key without a user
  document: \<^verbatim>\<open>locked_put\<close> goes through \<^verbatim>\<open>update_user\<close>, which writes nothing
  then. For \<open>bob\<close> the call returns normally, the database is as before, and there is
  no credentials field to read.
\<close>

theorem locked_put_missing_user_counterexample:
  "fst (locked_put (table_library granting) ''bob'' valid_credentials (sample_world ''{valid}'')) = Inr ()
   \<and> db (snd (locked_put (table_library granting) ''bob'' valid_credentials (sample_world ''{valid}'')))
       = db (sample_world ''{valid}'')
   \<and> coll_users (db (snd (locked_put (table_library granting) ''bob'' valid_credentials
                            (sample_world ''{valid}'')))) ''bob'' = None
   \<and> user_field (snd (locked_put (table_library granting) ''bob'' valid_credentials
                        (sample_world ''{valid}''))) ''bob'' ''google_calendar_credentials''
       \<noteq> Some (StringValue (to_json (table_library granting) valid_credentials))"
  by (simp add: locked_put_def update_google_calendar_credentials_def update_user_def
                error_def user_field_def sample_bob)

text \<open>
  C4, amended. For every key whose user document exists and every credentials object,
  \<^verbatim>\<open>locked_put\<close> returns normally and sets the field \<open>google_calendar_credentials\<close> of
  that document to the serialized credentials, creating the field when it was absent
  and leaving every other field as it was; on such a document it does what the
  merge-write of that one field does.
\<close>

theorem locked_put_writes_existing_user:
  assumes "coll_users (db w) key = Some doc"
  shows "locked_put lib key c w =
           (Inr (), set_users ((coll_users (db w))(key \<mapsto>
                       doc(''google_calendar_credentials'' \<mapsto> StringValue (to_json lib c)))) w)
       \<and> locked_put lib key c w =
           set_user key [''google_calendar_credentials'' \<mapsto> Put (StringValue (to_json lib c))] w
       \<and> user_field (snd (locked_put lib key c w)) key ''google_calendar_credentials'' =
           Some (StringValue (to_json lib c))
       \<and> (\<forall>f. f \<noteq> ''google_calendar_credentials'' \<longrightarrow>
             user_field (snd (locked_put lib key c w)) key f = doc f)"
  using assms
  by (simp add: locked_put_def update_credentials_existing set_user_def reference_set_merge_def
                apply_fields_put user_field_def set_users_def)

text \<open>For \<open>carol\<close>, whose document has no credentials field yet, the first call creates it.\<close>

theorem locked_put_writes_existing_user_witness:
  "coll_users (db (sample_world ''{valid}'')) ''carol'' = Some [''home'' \<mapsto> StringValue ''Oslo'']
   \<and> user_field (sample_world ''{valid}'') ''carol'' ''google_calendar_credentials'' = None
   \<and> fst (locked_put (table_library granting) ''carol'' valid_credentials (sample_world ''{valid}''))
       = Inr ()
   \<and> user_field (snd (locked_put (table_library granting) ''carol'' valid_credentials
                        (sample_world ''{valid}''))) ''carol'' ''google_calendar_credentials''
       = Some (StringValue ''{valid}'')
   \<and> user_field (snd (locked_put (table_library granting) ''carol'' valid_credentials
                        (sample_world ''{valid}''))) ''carol'' ''home''
       = Some (StringValue ''Oslo'')"
proof -
  let ?w = "sample_world ''{valid}''"
  let ?lib = "table_library granting"
  let ?doc = "[''home'' \<mapsto> StringValue ''Oslo'']"
  have blob: "to_json ?lib valid_credentials = ''{valid}''"
    by (simp add: table_library_def valid_credentials_def)
  have before: "user_field ?w ''carol'' ''google_calendar_credentials'' = None"
    by (simp add: user_field_def sample_carol)
  note t = locked_put_writes_existing_user [OF sample_carol [of "''{valid}''"],
             of ?lib valid_credentials]
  from t have "locked_put ?lib ''carol'' valid_credentials ?w =
      (Inr (), set_users ((coll_users (db ?w))(''carol'' \<mapsto>
         ?doc(''google_calendar_credentials'' \<mapsto> StringValue (to_json ?lib valid_credentials)))) ?w)"
    by blast
  then have ok: "fst (locked_put ?lib ''carol'' valid_credentials ?w) = Inr ()"
    by simp
  from t have "user_field (snd (locked_put ?lib ''carol'' valid_credentials ?w)) ''carol''
      ''google_calendar_credentials'' = Some (StringValue (to_json ?lib valid_credentials))"
    by blast
  then have written: "user_field (snd (locked_put ?lib ''carol'' valid_credentials ?w)) ''carol''
      ''google_calendar_credentials'' = Some (StringValue ''{valid}'')"
    by (simp only: blob)
  from t have "\<forall>f. f \<noteq> ''google_calendar_credentials'' \<longrightarrow>
      user_field (snd (locked_put ?lib ''carol'' valid_credentials ?w)) ''carol'' f = ?doc f"
    by blast
  then have "user_field (snd (locked_put ?lib ''carol'' valid_credentials ?w)) ''carol'' ''home'' = ?doc ''home''"
    by simp
  then have kept: "user_field (snd (locked_put ?lib ''carol'' valid_credentials ?w)) ''carol'' ''home''
      = Some (StringValue ''Oslo'')"
    by simp
  from ok written kept before sample_carol [of "''{valid}''"] show ?thesis
    by blast
qed

subsection \<open>Loading the credentials\<close>

text \<open>
  C10. For a key whose user document exists and has no \<open>google_calendar_credentials\<close>
  field, \<^verbatim>\<open>locked_get\<close> returns \<^verbatim>\<open>None\<close> after logging a warning: it writes and
  deletes nothing, so the database is as before, and it asks for no refresh.
\<close>

theorem locked_get_absent_field_reads_only:
  assumes "coll_users (db w) key = Some doc" and "doc ''google_calendar_credentials'' = None"
  shows "locked_get lib key w =
           (Inr None, w\<lparr>logged := logged w @ [(WARNING, ''Failed to load Google Calendar credentials.'')]\<rparr>)
       \<and> db (snd (locked_get lib key w)) = db w
       \<and> refresh_calls (snd (locked_get lib key w)) = refresh_calls w"
  using assms by (simp add: locked_get_def gcc_absent warning_def)

theorem locked_get_absent_field_reads_only_witness:
  "coll_users (db (sample_world ''{valid}'')) ''carol'' = Some [''home'' \<mapsto> StringValue ''Oslo'']
   \<and> [''home'' \<mapsto> StringValue ''Oslo''] ''google_calendar_credentials'' = None
   \<and> fst (locked_get (table_library refusing) ''carol'' (sample_world ''{valid}'')) = Inr None
   \<and> db (snd (locked_get (table_library refusing) ''carol'' (sample_world ''{valid}'')))
       = db (sample_world ''{valid}'')"
proof -
  let ?w = "sample_world ''{valid}''"
  let ?lib = "table_library refusing"
  have absent: "[''home'' \<mapsto> StringValue ''Oslo''] ''google_calendar_credentials'' = None"
    by simp
  note t = locked_get_absent_field_reads_only [OF sample_carol [of "''{valid}''"] absent, of ?lib]
  from t have "locked_get ?lib ''carol'' ?w =
      (Inr None, ?w\<lparr>logged := logged ?w @ [(WARNING, ''Failed to load Google Calendar credentials.'')]\<rparr>)"
    by blast
  then have none: "fst (locked_get ?lib ''carol'' ?w) = Inr None"
    by simp
  from t have same: "db (snd (locked_get ?lib ''carol'' ?w)) = db ?w"
    by blast
  from none same absent sample_carol [of "''{valid}''"] show ?thesis
    by blast
qed

text \<open>
  C5, as the claim has it: for every valid credentials object with a non-expired
  token, \<^verbatim>\<open>locked_put\<close> followed by \<^verbatim>\<open>locked_get\<close> gives the object back. It does
  not when the key of the storage has no user document: the put writes nothing and the
  get returns \<^verbatim>\<open>None\<close>.
\<close>

theorem round_trip_missing_user_counterexample:
  "\<not> invalid valid_credentials
   \<and> \<not> access_token_expired (table_library granting) valid_credentials
   \<and> fst (locked_put (table_library granting) ''bob'' valid_credentials (sample_world ''{valid}'')) = Inr ()
   \<and> fst (locked_get (table_library granting) ''bob''
            (snd (locked_put (table_library granting) ''bob'' valid_credentials (sample_world ''{valid}''))))
       = Inr None"
  by (simp add: locked_put_def update_google_calendar_credentials_def update_user_def error_def
                locked_get_def google_calendar_credentials_def user_def warning_def sample_bob
                valid_credentials_def table_library_def)

text \<open>
  C5, amended. When the user document of the storage's key exists, and the library's
  codec reads back what it wrote for the credentials object \<open>c\<close> (the storage reference
  is not serialized), then for \<open>c\<close> not marked invalid \<^verbatim>\<open>locked_put\<close> followed by
  \<^verbatim>\<open>locked_get\<close> returns \<open>c\<close> with this storage attached: the same tokens, the same
  expiry, still valid.
\<close>

theorem put_get_round_trip:
  assumes "coll_users (db w) key = Some doc"
      and "\<not> invalid c"
      and "from_json lib (StringValue (to_json lib c)) = Inr (Some (c\<lparr>store := None\<rparr>))"
  shows "fst (locked_get lib key (snd (locked_put lib key c w))) = Inr (Some (c\<lparr>store := Some key\<rparr>))"
proof -
  let ?w = "snd (locked_put lib key c w)"
  have "coll_users (db ?w) key =
          Some (doc(''google_calendar_credentials'' \<mapsto> StringValue (to_json lib c)))"
    using assms(1) by (simp add: locked_put_def update_credentials_existing set_users_def)
  then have "google_calendar_credentials lib key ?w = (Inr (Some (c\<lparr>store := None\<rparr>)), ?w)"
    using assms(2,3) by (simp add: gcc_stored [where json = "StringValue (to_json lib c)"])
  then show ?thesis
    by (simp add: locked_get_def set_store_def)
qed

theorem put_get_round_trip_witness:
  "coll_users (db (sample_world ''{expired}'')) ''alice'' =
     Some [''home'' \<mapsto> StringValue ''Zurich'',
           ''google_calendar_credentials'' \<mapsto> StringValue ''{expired}'']
   \<and> \<not> invalid valid_credentials
   \<and> from_json (table_library refusing) (StringValue (to_json (table_library refusing) valid_credentials))
       = Inr (Some (valid_credentials\<lparr>store := None\<rparr>))
   \<and> fst (locked_get (table_library refusing) ''alice''
            (snd (locked_put (table_library refusing) ''alice'' valid_credentials (sample_world ''{expired}''))))
       = Inr (Some \<lparr>access_token = ''ya29.live'', refresh_token = ''1//keep'', token_expiry = Some 2000,
                    invalid = False, store = Some ''alice''\<rparr>)"
proof -
  let ?lib = "table_library refusing"
  have valid: "\<not> invalid valid_credentials"
    by (simp add: valid_credentials_def)
  have codec: "from_json ?lib (StringValue (to_json ?lib valid_credentials))
                 = Inr (Some (valid_credentials\<lparr>store := None\<rparr>))"
    by (simp add: table_library_def valid_credentials_def)
  have attached: "valid_credentials\<lparr>store := Some ''alice''\<rparr> =
      \<lparr>access_token = ''ya29.live'', refresh_token = ''1//keep'', token_expiry = Some 2000,
       invalid = False, store = Some ''alice''\<rparr>"
    by (simp add: valid_credentials_def)
  from put_get_round_trip [OF sample_alice [of "''{expired}''"] valid codec]
  have "fst (locked_get ?lib ''alice'' (snd (locked_put ?lib ''alice'' valid_credentials (sample_world ''{expired}''))))
          = Inr (Some (valid_credentials\<lparr>store := Some ''alice''\<rparr>))" .
  with attached valid codec sample_alice [of "''{expired}''"] show ?thesis
    by (simp only:) blast
qed

subsection \<open>Expired and invalid credentials\<close>

text \<open>
  C2, as the claim has it: for every stored credential with an expired access token,
  \<^verbatim>\<open>locked_get\<close> makes one refresh request, returns the refreshed object and has the
  new token persisted. Two inputs show otherwise. A stored object that is expired but
  not marked invalid is returned as it is, by the first test of
  \<^verbatim>\<open>google_calendar_credentials\<close>, and no request is made. A stored object that is
  marked invalid is refreshed and returned with the new token, while the blob in the
  database stays the old one.
\<close>

theorem expired_refresh_counterexample:
  "access_token_expired (table_library granting) expired_credentials
   \<and> fst (locked_get (table_library granting) ''alice'' (sample_world ''{expired}''))
       = Inr (Some (set_store expired_credentials ''alice''))
   \<and> refresh_calls (snd (locked_get (table_library granting) ''alice'' (sample_world ''{expired}''))) = []
   \<and> access_token_expired (table_library granting) revoked_credentials
   \<and> fst (locked_get (table_library granting) ''alice'' (sample_world ''{revoked}''))
       = Inr (Some \<lparr>access_token = ''ya29.new'', refresh_token = ''1//keep'', token_expiry = Some 4600,
                    invalid = False, store = Some ''alice''\<rparr>)
   \<and> user_field (snd (locked_get (table_library granting) ''alice'' (sample_world ''{revoked}'')))
        ''alice'' ''google_calendar_credentials'' = Some (StringValue ''{revoked}'')
   \<and> to_json (table_library granting)
        \<lparr>access_token = ''ya29.new'', refresh_token = ''1//keep'', token_expiry = Some 4600,
         invalid = False, store = Some ''alice''\<rparr> \<noteq> ''{revoked}''"
  by (simp add: sample_defs method_defs)

text \<open>
  C2, amended. For every stored credential that is marked invalid and whose access
  token is expired, \<^verbatim>\<open>locked_get\<close> makes exactly one refresh request, for that
  credential; if the request gives a refreshed object, \<^verbatim>\<open>locked_get\<close> returns it with
  this storage attached, and the call writes nothing to the database.
\<close>

theorem invalid_expired_refreshed_once:
  assumes "coll_users (db w) key = Some doc"
      and "doc ''google_calendar_credentials'' = Some json"
      and "from_json lib json = Inr (Some c)"
      and "invalid c" and "access_token_expired lib c"
  shows "refresh_calls (snd (locked_get lib key w)) = refresh_calls w @ [c]
       \<and> (\<forall>c'. refresh lib c = Inr c' \<longrightarrow>
             fst (locked_get lib key w) = Inr (Some (set_store c' key))
           \<and> db (snd (locked_get lib key w)) = db w)"
proof -
  let ?r = "refresh_credentials lib key c w"
  have g: "google_calendar_credentials lib key w = ?r"
    using assms by (simp add: gcc_stored)
  have calls: "refresh_calls (snd ?r) = refresh_calls w @ [c]"
  proof (cases "refresh lib c")
    case (Inr c')
    then show ?thesis
      by (simp add: refresh_credentials_def Let_def info_def)
  next
    case (Inl x)
    show ?thesis
    proof (cases "\<exists>e. x = HttpAccessTokenRefreshError e")
      case True
      then obtain e where "refresh lib c = Inl (HttpAccessTokenRefreshError e)"
        using Inl by blast
      from refresh_failed_eq [OF assms(1) this] show ?thesis
        by (simp add: set_users_def warning_def info_def)
    next
      case False
      with Inl show ?thesis
        by (cases x) (simp_all add: refresh_credentials_def Let_def info_def)
    qed
  qed
  have same: "snd (locked_get lib key w) = snd ?r"
    using g by (cases ?r) (auto simp: locked_get_def split: sum.splits option.splits)
  have ok: "fst (locked_get lib key w) = Inr (Some (set_store c' key)) \<and> db (snd ?r) = db w"
    if "refresh lib c = Inr c'" for c'
    using that g by (simp add: locked_get_def refresh_credentials_def Let_def info_def)
  from calls same ok show ?thesis
    by simp
qed

theorem invalid_expired_refreshed_once_witness:
  "coll_users (db (sample_world ''{revoked}'')) ''alice'' =
     Some [''home'' \<mapsto> StringValue ''Zurich'',
           ''google_calendar_credentials'' \<mapsto> StringValue ''{revoked}'']
   \<and> from_json (table_library granting) (StringValue ''{revoked}'') = Inr (Some revoked_credentials)
   \<and> invalid revoked_credentials
   \<and> access_token_expired (table_library granting) revoked_credentials
   \<and> refresh (table_library granting) revoked_credentials = granting revoked_credentials
   \<and> refresh_calls (snd (locked_get (table_library granting) ''alice'' (sample_world ''{revoked}'')))
       = [revoked_credentials]
   \<and> fst (locked_get (table_library granting) ''alice'' (sample_world ''{revoked}''))
       = Inr (Some \<lparr>access_token = ''ya29.new'', refresh_token = ''1//keep'', token_expiry = Some 4600,
                    invalid = False, store = Some ''alice''\<rparr>)
   \<and> db (snd (locked_get (table_library granting) ''alice'' (sample_world ''{revoked}'')))
       = db (sample_world ''{revoked}'')"
proof -
  let ?w = "sample_world ''{revoked}''"
  let ?lib = "table_library granting"
  let ?doc = "[''home'' \<mapsto> StringValue ''Zurich'',
               ''google_calendar_credentials'' \<mapsto> StringValue ''{revoked}'']"
  let ?new = "\<lparr>access_token = ''ya29.new'', refresh_token = ''1//keep'', token_expiry = Some 4600,
               invalid = False, store = None\<rparr>"
  have blob: "?doc ''google_calendar_credentials'' = Some (StringValue ''{revoked}'')"
    by simp
  have parsed: "from_json ?lib (StringValue ''{revoked}'') = Inr (Some revoked_credentials)"
    by (simp add: table_library_def)
  have inv: "invalid revoked_credentials"
    by (simp add: revoked_credentials_def)
  have expired: "access_token_expired ?lib revoked_credentials"
    by (simp add: table_library_def revoked_credentials_def)
  have endpoint: "refresh ?lib revoked_credentials = granting revoked_credentials"
    by (simp add: table_library_def)
  have granted: "refresh ?lib revoked_credentials = Inr ?new"
    by (simp add: table_library_def granting_def revoked_credentials_def)
  have none_before: "refresh_calls ?w = []"
    by (simp add: sample_world_def)
  note t = invalid_expired_refreshed_once [OF sample_alice [of "''{revoked}''"] blob parsed inv expired]
  from t none_before
  have once: "refresh_calls (snd (locked_get ?lib ''alice'' ?w)) = [revoked_credentials]"
    by simp
  from t granted
  have "fst (locked_get ?lib ''alice'' ?w) = Inr (Some (set_store ?new ''alice''))"
    and kept: "db (snd (locked_get ?lib ''alice'' ?w)) = db ?w"
    by blast+
  then have returned: "fst (locked_get ?lib ''alice'' ?w) =
      Inr (Some \<lparr>access_token = ''ya29.new'', refresh_token = ''1//keep'', token_expiry = Some 4600,
                 invalid = False, store = Some ''alice''\<rparr>)"
    by (simp add: set_store_def)
  from sample_alice [of "''{revoked}''"] parsed inv expired endpoint once returned kept
  show ?thesis
    by blast
qed

text \<open>
  C1, as the claim has it: for every stored credential with an expired access token
  and a token endpoint that answers with an error, \<^verbatim>\<open>locked_get\<close> returns
  \<^verbatim>\<open>None\<close> and deletes the blob. For a stored object that is expired but not marked
  invalid the endpoint is never asked: the object is returned and the blob stays.
\<close>

theorem refresh_failure_counterexample:
  "from_json (table_library refusing) (StringValue ''{expired}'') = Inr (Some expired_credentials)
   \<and> access_token_expired (table_library refusing) expired_credentials
   \<and> refresh (table_library refusing) expired_credentials
       = Inl (HttpAccessTokenRefreshError ''invalid_grant'')
   \<and> fst (locked_get (table_library refusing) ''alice'' (sample_world ''{expired}''))
       = Inr (Some (set_store expired_credentials ''alice''))
   \<and> fst (locked_get (table_library refusing) ''alice'' (sample_world ''{expired}'')) \<noteq> Inr None
   \<and> user_field (snd (locked_get (table_library refusing) ''alice'' (sample_world ''{expired}'')))
        ''alice'' ''google_calendar_credentials'' = Some (StringValue ''{expired}'')"
  by (simp add: sample_defs method_defs)

text \<open>
  C1, amended. For every stored credential that is marked invalid and whose access
  token is expired, if the refresh request fails with the token endpoint's error
  (\<^verbatim>\<open>HttpAccessTokenRefreshError\<close>), then \<^verbatim>\<open>locked_get\<close> returns \<^verbatim>\<open>None\<close>, the
  credentials field is removed from the user's document while the rest of the database
  stays as it was, and a second \<^verbatim>\<open>locked_get\<close> on the same key returns \<^verbatim>\<open>None\<close>
  too.
\<close>

theorem refresh_failure_deletes_blob:
  assumes "coll_users (db w) key = Some doc"
      and "doc ''google_calendar_credentials'' = Some json"
      and "from_json lib json = Inr (Some c)"
      and "invalid c" and "access_token_expired lib c"
      and "refresh lib c = Inl (HttpAccessTokenRefreshError e)"
  shows "fst (locked_get lib key w) = Inr None
       \<and> db (snd (locked_get lib key w)) =
           (db w)\<lparr>coll_users := (coll_users (db w))(key \<mapsto> doc(''google_calendar_credentials'' := None))\<rparr>
       \<and> user_field (snd (locked_get lib key w)) key ''google_calendar_credentials'' = None
       \<and> fst (locked_get lib key (snd (locked_get lib key w))) = Inr None"
proof -
  let ?r = "refresh_credentials lib key c w"
  let ?d = "(db w)\<lparr>coll_users := (coll_users (db w))(key \<mapsto> doc(''google_calendar_credentials'' := None))\<rparr>"
  have g: "google_calendar_credentials lib key w = ?r"
    using assms by (simp add: gcc_stored)
  have r: "fst ?r = Inr None" and d: "db (snd ?r) = ?d"
    using refresh_failed_eq [OF assms(1,6)]
    by (simp_all add: info_def warning_def set_users_def)
  have l: "locked_get lib key w = (Inr None, snd ?r)"
    using g r by (cases ?r) (simp add: locked_get_def)
  have u: "coll_users (db (snd ?r)) key = Some (doc(''google_calendar_credentials'' := None))"
    using d by simp
  have "google_calendar_credentials lib key (snd ?r) =
          (Inr None, warning ''Failed to load Google Calendar credentials.'' (snd ?r))"
    using u by (rule gcc_absent) simp
  then have "fst (locked_get lib key (snd ?r)) = Inr None"
    by (simp add: locked_get_def)
  with l d u show ?thesis
    by (simp add: user_field_def)
qed

theorem refresh_failure_deletes_blob_witness:
  "coll_users (db (sample_world ''{revoked}'')) ''alice'' =
     Some [''home'' \<mapsto> StringValue ''Zurich'',
           ''google_calendar_credentials'' \<mapsto> StringValue ''{revoked}'']
   \<and> from_json (table_library refusing) (StringValue ''{revoked}'') = Inr (Some revoked_credentials)
   \<and> invalid revoked_credentials
   \<and> access_token_expired (table_library refusing) revoked_credentials
   \<and> refresh (table_library refusing) revoked_credentials
       = Inl (HttpAccessTokenRefreshError ''invalid_grant'')
   \<and> fst (locked_get (table_library refusing) ''alice'' (sample_world ''{revoked}'')) = Inr None
   \<and> user_field (snd (locked_get (table_library refusing) ''alice'' (sample_world ''{revoked}'')))
        ''alice'' ''google_calendar_credentials'' = None
   \<and> fst (locked_get (table_library refusing) ''alice''
            (snd (locked_get (table_library refusing) ''alice'' (sample_world ''{revoked}'')))) = Inr None"
proof -
  let ?lib = "table_library refusing"
  let ?doc = "[''home'' \<mapsto> StringValue ''Zurich'',
               ''google_calendar_credentials'' \<mapsto> StringValue ''{revoked}'']"
  have blob: "?doc ''google_calendar_credentials'' = Some (StringValue ''{revoked}'')"
    by simp
  have parsed: "from_json ?lib (StringValue ''{revoked}'') = Inr (Some revoked_credentials)"
    by (simp add: table_library_def)
  have inv: "invalid revoked_credentials"
    by (simp add: revoked_credentials_def)
  have expired: "access_token_expired ?lib revoked_credentials"
    by (simp add: table_library_def revoked_credentials_def)
  have refused: "refresh ?lib revoked_credentials = Inl (HttpAccessTokenRefreshError ''invalid_grant'')"
    by (simp add: table_library_def refusing_def)
  from refresh_failure_deletes_blob [OF sample_alice [of "''{revoked}''"] blob parsed inv expired refused]
       sample_alice [of "''{revoked}''"] parsed inv expired refused
  show ?thesis
    by blast
qed

text \<open>
  C3, as the claim has it: whenever the stored blob cannot be parsed or gives an
  invalid credentials object, \<^verbatim>\<open>locked_get\<close> raises nothing, deletes the blob and
  returns \<^verbatim>\<open>None\<close>. Two inputs show otherwise. For a blob the codec rejects, the
  exception raised by \<^verbatim>\<open>from_json\<close> leaves \<^verbatim>\<open>locked_get\<close>, which has no handler
  around that call, and the blob stays. For a blob that gives an invalid object, a
  refresh is tried first; when it is granted the refreshed object is returned and the
  blob stays.
\<close>

theorem unparseable_or_invalid_counterexample:
  "from_json (table_library granting) (StringValue ''not json'')
       = Inl (ValueError ''No JSON object could be decoded'')
   \<and> locked_get (table_library granting) ''alice'' (sample_world ''not json'')
       = (Inl (External (ValueError ''No JSON object could be decoded'')), sample_world ''not json'')
   \<and> user_field (sample_world ''not json'') ''alice'' ''google_calendar_credentials''
       = Some (StringValue ''not json'')
   \<and> from_json (table_library granting) (StringValue ''{revoked}'') = Inr (Some revoked_credentials)
   \<and> invalid revoked_credentials
   \<and> fst (locked_get (table_library granting) ''alice'' (sample_world ''{revoked}''))
       = Inr (Some \<lparr>access_token = ''ya29.new'', refresh_token = ''1//keep'', token_expiry = Some 4600,
                    invalid = False, store = Some ''alice''\<rparr>)
   \<and> user_field (snd (locked_get (table_library granting) ''alice'' (sample_world ''{revoked}'')))
        ''alice'' ''google_calendar_credentials'' = Some (StringValue ''{revoked}'')"
  by (simp add: sample_defs method_defs)

text \<open>
  C3, amended. For every stored blob that deserializes to no credentials object, or to
  an object marked invalid for which no refresh succeeds (its access token does not
  count as expired, or the one refresh request fails with the token endpoint's error),
  \<^verbatim>\<open>locked_get\<close> raises nothing: it removes the credentials field from the user's
  document, leaves the rest of the database as it was, and returns \<^verbatim>\<open>None\<close>. An
  exception raised by the deserialization itself reaches the caller of
  \<^verbatim>\<open>locked_get\<close>, and nothing is changed.
\<close>

theorem terminal_failure_deletes_blob:
  assumes "coll_users (db w) key = Some doc"
      and "doc ''google_calendar_credentials'' = Some json"
  shows "(from_json lib json = Inr None
          \<or> (\<exists>c. from_json lib json = Inr (Some c) \<and> invalid c
                \<and> (\<not> access_token_expired lib c
                    \<or> (\<exists>e. refresh lib c = Inl (HttpAccessTokenRefreshError e))))
          \<longrightarrow> fst (locked_get lib key w) = Inr None
            \<and> db (snd (locked_get lib key w)) =
                (db w)\<lparr>coll_users := (coll_users (db w))(key \<mapsto> doc(''google_calendar_credentials'' := None))\<rparr>)
       \<and> (\<forall>x. from_json lib json = Inl x \<longrightarrow> locked_get lib key w = (Inl (External x), w))"
proof (intro conjI impI allI)
  let ?d = "(db w)\<lparr>coll_users := (coll_users (db w))(key \<mapsto> doc(''google_calendar_credentials'' := None))\<rparr>"
  assume "from_json lib json = Inr None
          \<or> (\<exists>c. from_json lib json = Inr (Some c) \<and> invalid c
                \<and> (\<not> access_token_expired lib c
                    \<or> (\<exists>e. refresh lib c = Inl (HttpAccessTokenRefreshError e))))"
  then consider
      (null) "from_json lib json = Inr None"
    | (unexpired) c where "from_json lib json = Inr (Some c)" "invalid c" "\<not> access_token_expired lib c"
    | (failed) c e where "from_json lib json = Inr (Some c)" "invalid c" "access_token_expired lib c"
        "refresh lib c = Inl (HttpAccessTokenRefreshError e)"
    by blast
  then have "\<exists>w'. google_calendar_credentials lib key w = (Inr None, w') \<and> db w' = ?d"
  proof cases
    case null
    then show ?thesis
      using assms by (simp add: gcc_stored delete_and_return_none_existing set_users_def warning_def)
  next
    case unexpired
    then show ?thesis
      using assms by (simp add: gcc_stored delete_and_return_none_existing set_users_def warning_def)
  next
    case failed
    then show ?thesis
      using assms refresh_failed_eq [OF assms(1) failed(4)]
      by (simp add: gcc_stored set_users_def warning_def info_def)
  qed
  then obtain w' where "google_calendar_credentials lib key w = (Inr None, w')" "db w' = ?d"
    by blast
  then show "fst (locked_get lib key w) = Inr None" and "db (snd (locked_get lib key w)) = ?d"
    by (simp_all add: locked_get_def)
next
  fix x assume "from_json lib json = Inl x"
  then show "locked_get lib key w = (Inl (External x), w)"
    using assms by (simp add: locked_get_def gcc_stored)
qed

text \<open>
  Both halves at concrete inputs: the invalid blob whose refresh is refused is deleted,
  and the blob the codec rejects makes \<^verbatim>\<open>locked_get\<close> raise.
\<close>

theorem terminal_failure_deletes_blob_witness:
  "coll_users (db (sample_world ''{revoked}'')) ''alice'' =
     Some [''home'' \<mapsto> StringValue ''Zurich'',
           ''google_calendar_credentials'' \<mapsto> StringValue ''{revoked}'']
   \<and> from_json (table_library refusing) (StringValue ''{revoked}'') = Inr (Some revoked_credentials)
   \<and> invalid revoked_credentials
   \<and> refresh (table_library refusing) revoked_credentials
       = Inl (HttpAccessTokenRefreshError ''invalid_grant'')
   \<and> fst (locked_get (table_library refusing) ''alice'' (sample_world ''{revoked}'')) = Inr None
   \<and> coll_users (db (snd (locked_get (table_library refusing) ''alice'' (sample_world ''{revoked}''))))
        ''alice'' = Some [''home'' \<mapsto> StringValue ''Zurich'']
   \<and> from_json (table_library refusing) (StringValue ''not json'')
       = Inl (ValueError ''No JSON object could be decoded'')
   \<and> locked_get (table_library refusing) ''alice'' (sample_world ''not json'')
       = (Inl (External (ValueError ''No JSON object could be decoded'')), sample_world ''not json'')"
proof -
  let ?lib = "table_library refusing"
  let ?w = "sample_world ''{revoked}''"
  let ?doc = "\<lambda>blob. [''home'' \<mapsto> StringValue ''Zurich'',
                       ''google_calendar_credentials'' \<mapsto> StringValue blob]"
  have blob: "?doc blob ''google_calendar_credentials'' = Some (StringValue blob)" for blob
    by simp
  have parsed: "from_json ?lib (StringValue ''{revoked}'') = Inr (Some revoked_credentials)"
    by (simp add: table_library_def)
  have inv: "invalid revoked_credentials"
    by (simp add: revoked_credentials_def)
  have refused: "refresh ?lib revoked_credentials = Inl (HttpAccessTokenRefreshError ''invalid_grant'')"
    by (simp add: table_library_def refusing_def)
  have rejected: "from_json ?lib (StringValue ''not json'') = Inl (ValueError ''No JSON object could be decoded'')"
    by (simp add: table_library_def)
  note t1 = terminal_failure_deletes_blob [OF sample_alice [of "''{revoked}''"] blob, of ?lib]
  note t2 = terminal_failure_deletes_blob [OF sample_alice [of "''not json''"] blob, of ?lib]
  from t1 parsed inv refused
  have none: "fst (locked_get ?lib ''alice'' ?w) = Inr None"
    and "db (snd (locked_get ?lib ''alice'' ?w)) =
           (db ?w)\<lparr>coll_users := (coll_users (db ?w))(''alice'' \<mapsto>
              (?doc ''{revoked}'')(''google_calendar_credentials'' := None))\<rparr>"
    by blast+
  then have deleted: "coll_users (db (snd (locked_get ?lib ''alice'' ?w))) ''alice''
      = Some [''home'' \<mapsto> StringValue ''Zurich'']"
    by simp
  from t2 rejected
  have raised: "locked_get ?lib ''alice'' (sample_world ''not json'')
      = (Inl (External (ValueError ''No JSON object could be decoded'')), sample_world ''not json'')"
    by blast
  from sample_alice [of "''{revoked}''"] parsed inv refused none deleted rejected raised
  show ?thesis
    by blast
qed

end
